theory Spec2Isabelle
  imports Complex_Main
begin

section \<open>debugtimer: the two context managers of \<^verbatim>\<open>debugtimer.py\<close>\<close>

text \<open>
  The module defines \<^verbatim>\<open>TimeAccumulator\<close> and \<^verbatim>\<open>DebugTimer\<close>. Both read the clock with
  \<^verbatim>\<open>time.perf_counter()\<close>; here every clock reading is an argument of the operation that
  reads it. Modelling decisions, all of them visible in the definitions below:

  \<^item> Python floats are idealised as \<^typ>\<open>real\<close>: the arithmetic is exact, rounding of the
    binary representation is not modelled.
  \<^item> An exception is a value of type \<open>error\<close>. An attribute listed in \<^verbatim>\<open>__slots__\<close> but
    not yet assigned is \<open>None\<close>; reading it raises \<^verbatim>\<open>AttributeError\<close>.
  \<^item> A name used by a method and not local to it is looked up in the module's global
    namespace when the expression is evaluated. The namespace is an argument \<open>g\<close> of the
    operations that need it; \<open>module_globals\<close> is the one the source file creates.
  \<^item> Text is a list of bytes (UTF-8). Every call of \<^verbatim>\<open>print\<close> adds one entry to the
    output, without the final newline.
  \<^item> Parameter annotations are not evaluated when the module is loaded (deferred
    evaluation of annotations), so they have no counterpart here.
\<close>

subsection \<open>Exceptions and the module namespace\<close>

datatype error =
    NameError string
  | UnboundLocalError string
  | AttributeError string
  | KeyError string
  | ValueError
  | ZeroDivisionError

text \<open>
  The source file has one import statement, \<^verbatim>\<open>import time\<close>, and two class statements.
  These are the names bound at module level.
\<close>

definition module_globals :: "string list" where
  "module_globals = [''time'', ''TimeAccumulator'', ''DebugTimer'']"

text \<open>\<^verbatim>\<open>x / y\<close> on numbers.\<close>

definition truediv :: "real \<Rightarrow> real \<Rightarrow> error + real" where
  "truediv x y = (if y = 0 then Inl ZeroDivisionError else Inr (x / y))"

text \<open>
  \<^verbatim>\<open>math.log10(x)\<close>: the name \<^verbatim>\<open>math\<close> is resolved first, then the function is applied;
  it raises \<^verbatim>\<open>ValueError\<close> (math domain error) unless \<open>x\<close> is positive.
\<close>

definition math_log10 :: "string list \<Rightarrow> real \<Rightarrow> error + real" where
  "math_log10 g x =
     (if ''math'' \<notin> set g then Inl (NameError ''math'')
      else if x \<le> 0 then Inl ValueError
      else Inr (log 10 x))"

subsection \<open>TimeAccumulator\<close>

record TimeAccumulator =
  duration :: real
  num_calls :: int
  start :: "real option"

definition TimeAccumulator_init :: TimeAccumulator where
  "TimeAccumulator_init = \<lparr>duration = 0, num_calls = 0, start = None\<rparr>"

text \<open>
  \<^verbatim>\<open>__enter__\<close> has no return statement. The first component of the result is the value
  that \<^verbatim>\<open>with acc as x\<close> binds to \<open>x\<close>: \<open>None\<close> is Python's \<^verbatim>\<open>None\<close>, \<open>Some obj\<close> an object.
\<close>

definition TimeAccumulator_enter ::
  "real \<Rightarrow> TimeAccumulator \<Rightarrow> TimeAccumulator option \<times> TimeAccumulator" where
  "TimeAccumulator_enter now acc =
     (None, acc\<lparr>num_calls := num_calls acc + 1, start := Some now\<rparr>)"

definition TimeAccumulator_exit :: "real \<Rightarrow> TimeAccumulator \<Rightarrow> error + TimeAccumulator" where
  "TimeAccumulator_exit now acc =
     (case start acc of
        None \<Rightarrow> Inl (AttributeError ''start'')
      | Some s \<Rightarrow>
          (let incremental_duration = now - s
           in Inr (acc\<lparr>duration := duration acc + incremental_duration\<rparr>)))"

text \<open>
  One \<^verbatim>\<open>with acc: ...\<close> block, given as the pair \<open>p\<close> of the clock readings of its
  \<^verbatim>\<open>__enter__\<close> and of its \<^verbatim>\<open>__exit__\<close>, and a sequence of such blocks on the same object.
\<close>

definition with_block :: "real \<times> real \<Rightarrow> TimeAccumulator \<Rightarrow> error + TimeAccumulator" where
  "with_block p acc = TimeAccumulator_exit (snd p) (snd (TimeAccumulator_enter (fst p) acc))"

fun run_blocks :: "(real \<times> real) list \<Rightarrow> TimeAccumulator \<Rightarrow> error + TimeAccumulator" where
  "run_blocks [] acc = Inr acc"
| "run_blocks (p # ps) acc =
     (case with_block p acc of Inl e \<Rightarrow> Inl e | Inr acc' \<Rightarrow> run_blocks ps acc')"

text \<open>
  The successive states of the object over such a sequence: the state before the first
  block, then the state after every \<^verbatim>\<open>__enter__\<close> and after every \<^verbatim>\<open>__exit__\<close>.
\<close>

fun life :: "(real \<times> real) list \<Rightarrow> TimeAccumulator \<Rightarrow> TimeAccumulator list" where
  "life [] acc = [acc]"
| "life (p # ps) acc =
     acc # snd (TimeAccumulator_enter (fst p) acc) #
       (case with_block p acc of Inl e \<Rightarrow> [] | Inr acc' \<Rightarrow> life ps acc')"

subsection \<open>Rendering numbers\<close>

text \<open>Decimal digits of an integer that is not negative, and \<^verbatim>\<open>str\<close> of an integer.\<close>

function digits :: "int \<Rightarrow> string" where
  "digits n =
     (if n < 10 then [''0123456789'' ! nat n]
      else digits (n div 10) @ [''0123456789'' ! nat (n mod 10)])"
  by pat_completeness auto
termination
  by (relation "measure nat") auto

declare digits.simps [simp del]

definition str_int :: "int \<Rightarrow> string" where
  "str_int i = (if i < 0 then ''-'' @ digits (- i) else digits i)"

text \<open>
  The format specification \<^verbatim>\<open>.3f\<close>: the value rounded to a multiple of one thousandth,
  a tie going to the even neighbour, printed with exactly three digits after the point.
\<close>

definition round_half_even :: "real \<Rightarrow> int" where
  "round_half_even x =
     (let f = \<lfloor>x\<rfloor>; r = x - of_int f
      in if r < 1 / 2 then f else if 1 / 2 < r then f + 1 else if even f then f else f + 1)"

definition format_3f :: "real \<Rightarrow> string" where
  "format_3f x =
     (let n = round_half_even (\<bar>x\<bar> * 1000);
          frac = digits (n mod 1000);
          body = digits (n div 1000) @ ''.'' @ replicate (3 - length frac) CHR ''0'' @ frac
      in if x < 0 then ''-'' @ body else body)"

subsection \<open>Scaling a duration to a unit\<close>

text \<open>
  The unit tables are written out three times in \<^verbatim>\<open>DebugTimer.__exit__\<close>: once for the
  timer's own line, with the unit \<^verbatim>\<open>us\<close>, and twice for an accumulator's line, with the
  unit spelt with the Greek letter mu (the bytes CE BC in UTF-8).
\<close>

definition units_timer :: "(real \<times> string) list" where
  "units_timer =
     [(1 / 10 ^ 9, ''ns''), (1 / 10 ^ 6, ''us''), (1 / 10 ^ 3, ''ms''),
      (1, ''s''), (60, ''m''), (60 * 60, ''h'')]"

definition units_accumulator :: "(real \<times> string) list" where
  "units_accumulator =
     [(1 / 10 ^ 9, ''ns''), (1 / 10 ^ 6, [CHR 0xCE, CHR 0xBC, CHR ''s'']), (1 / 10 ^ 3, ''ms''),
      (1, ''s''), (60, ''m''), (60 * 60, ''h'')]"

text \<open>
  The loop
  \<^verbatim>\<open>
  for coeff, unit in [...]:
      duration = duration_sec / coeff
      if 0 < math.log10(duration) < 3:
          break
  \<close>
  The argument \<open>cur\<close> holds the loop's variables \<^verbatim>\<open>duration\<close> and \<^verbatim>\<open>unit\<close> (\<open>None\<close>
  while they are unbound). When the list is exhausted without a \<^verbatim>\<open>break\<close> they keep the
  values of the last iteration.
\<close>

fun scan_units ::
  "string list \<Rightarrow> (real \<times> string) list \<Rightarrow> real \<Rightarrow> (real \<times> string) option
     \<Rightarrow> error + (real \<times> string)" where
  "scan_units g [] d_sec cur =
     (case cur of None \<Rightarrow> Inl (UnboundLocalError ''duration'') | Some c \<Rightarrow> Inr c)"
| "scan_units g ((coeff, u) # rest) d_sec cur =
     (case truediv d_sec coeff of
        Inl e \<Rightarrow> Inl e
      | Inr d \<Rightarrow>
          (case math_log10 g d of
             Inl e \<Rightarrow> Inl e
           | Inr l \<Rightarrow>
               if 0 < l \<and> l < 3 then Inr (d, u)
               else scan_units g rest d_sec (Some (d, u))))"

text \<open>The loop followed by the f-string \<^verbatim>\<open>f"{duration:.3f} {unit}"\<close>.\<close>

definition format_duration :: "string list \<Rightarrow> (real \<times> string) list \<Rightarrow> real \<Rightarrow> error + string" where
  "format_duration g units d_sec =
     (case scan_units g units d_sec None of
        Inl e \<Rightarrow> Inl e
      | Inr (d, u) \<Rightarrow> Inr (format_3f d @ '' '' @ u))"

subsection \<open>DebugTimer\<close>

text \<open>
  The dictionary \<^verbatim>\<open>accumulators\<close> is an association list in insertion order, without
  repeated keys. Storing under a key that is present replaces the value and keeps the
  key's position.
\<close>

definition dict_setitem :: "(string \<times> 'v) list \<Rightarrow> string \<Rightarrow> 'v \<Rightarrow> (string \<times> 'v) list" where
  "dict_setitem d k v =
     (if k \<in> set (map fst d) then map (\<lambda>(k', v'). if k' = k then (k', v) else (k', v')) d
      else d @ [(k, v)])"

definition dict_getitem :: "(string \<times> 'v) list \<Rightarrow> string \<Rightarrow> error + 'v" where
  "dict_getitem d k = (case map_of d k of None \<Rightarrow> Inl (KeyError k) | Some v \<Rightarrow> Inr v)"

text \<open>
  The attribute \<^verbatim>\<open>start\<close> of the timer is the field \<open>timer_start\<close> (the accumulator's
  record has a field \<open>start\<close> already).
\<close>

record DebugTimer =
  name :: "string option"
  silent :: bool
  accumulators :: "(string \<times> TimeAccumulator) list"
  timer_start :: "real option"
  duration_sec :: "real option"

text \<open>
  \<^verbatim>\<open>{name: TimeAccumulator() for name in accumulator_names or []}\<close>: an absent or empty
  list of names gives the empty dictionary.
\<close>

definition DebugTimer_init :: "string option \<Rightarrow> string list option \<Rightarrow> bool \<Rightarrow> DebugTimer" where
  "DebugTimer_init nm accumulator_names sil =
     \<lparr>name = nm, silent = sil,
      accumulators =
        fold (\<lambda>k d. dict_setitem d k TimeAccumulator_init)
          (case accumulator_names of None \<Rightarrow> [] | Some ns \<Rightarrow> ns) [],
      timer_start = None, duration_sec = None\<rparr>"

text \<open>\<^verbatim>\<open>__enter__\<close> ends with \<^verbatim>\<open>return self\<close>.\<close>

definition DebugTimer_enter :: "real \<Rightarrow> DebugTimer \<Rightarrow> DebugTimer option \<times> DebugTimer" where
  "DebugTimer_enter now t =
     (let t' = t\<lparr>timer_start := Some now\<rparr> in (Some t', t'))"

text \<open>
  \<^verbatim>\<open>with timer.accumulators[k]: ...\<close> as in the class's docstring, \<open>p\<close> being the clock
  readings of the block. The accumulator is the object stored in the dictionary, so its
  new state is the dictionary's entry afterwards.
\<close>

definition with_accumulator :: "string \<Rightarrow> real \<times> real \<Rightarrow> DebugTimer \<Rightarrow> error + DebugTimer" where
  "with_accumulator k p t =
     (case dict_getitem (accumulators t) k of
        Inl e \<Rightarrow> Inl e
      | Inr acc \<Rightarrow>
          (case with_block p acc of
             Inl e \<Rightarrow> Inl e
           | Inr acc' \<Rightarrow> Inr (t\<lparr>accumulators := dict_setitem (accumulators t) k acc'\<rparr>)))"

text \<open>
  The name clause of a printed line, \<^verbatim>\<open>f" '{name}' " if name is not None else ' '\<close>.
\<close>

definition name_clause :: "string option \<Rightarrow> string" where
  "name_clause nm =
     (case nm of None \<Rightarrow> '' '' | Some n \<Rightarrow> [CHR '' '', CHR 0x27] @ n @ [CHR 0x27, CHR '' ''])"

text \<open>
  The loop over \<^verbatim>\<open>self.accumulators.items()\<close>. The result is the lines printed and the
  exception that ended the loop, if any. A key of the dictionary is a string, so the
  test \<^verbatim>\<open>name is not None\<close> of the source holds for it.
\<close>

fun report_accumulators ::
  "string list \<Rightarrow> (string \<times> TimeAccumulator) list \<Rightarrow> string list \<times> error option" where
  "report_accumulators g [] = ([], None)"
| "report_accumulators g ((k, accumulator) # rest) =
     (if num_calls accumulator > 0 then
        (case format_duration g units_accumulator (duration accumulator) of
           Inl e \<Rightarrow> ([], Some e)
         | Inr duration_total_fmt \<Rightarrow>
             (case truediv (duration accumulator) (of_int (num_calls accumulator)) of
                Inl e \<Rightarrow> ([], Some e)
              | Inr per_call \<Rightarrow>
                  (case format_duration g units_accumulator per_call of
                     Inl e \<Rightarrow> ([], Some e)
                   | Inr duration_per_call_fmt \<Rightarrow>
                       (let line = [CHR 0x09] @ ''Accumlator'' @ name_clause (Some k) @ ''took ''
                              @ duration_total_fmt @ '' out of '' @ str_int (num_calls accumulator)
                              @ '' calls ('' @ duration_per_call_fmt @ '' per call)'';
                            (out, err) = report_accumulators g rest
                        in (line # out, err)))))
      else report_accumulators g rest)"

text \<open>
  \<^verbatim>\<open>__exit__\<close>. The result is the lines printed, the state of the object, and the
  exception raised, if any. The assignment to \<^verbatim>\<open>self.duration_sec\<close> comes before anything
  is formatted, so the field is set also when formatting raises.
\<close>

definition DebugTimer_exit ::
  "string list \<Rightarrow> real \<Rightarrow> DebugTimer \<Rightarrow> string list \<times> DebugTimer \<times> error option" where
  "DebugTimer_exit g end_time t =
     (case timer_start t of
        None \<Rightarrow> ([], t, Some (AttributeError ''start''))
      | Some s \<Rightarrow>
          (let d_sec = end_time - s;
               t' = t\<lparr>duration_sec := Some d_sec\<rparr>
           in if \<not> silent t then
                (case format_duration g units_timer d_sec of
                   Inl e \<Rightarrow> ([], t', Some e)
                 | Inr duration_fmt \<Rightarrow>
                     (let line = ''Code block'' @ name_clause (name t) @ ''took '' @ duration_fmt;
                          (out, err) = report_accumulators g (accumulators t)
                      in (line # out, t', err)))
              else ([], t', None)))"

subsection \<open>A region with accumulators\<close>

text \<open>
  A sequence of \<^verbatim>\<open>with timer.accumulators[k]: ...\<close> blocks inside the region of a timer,
  and the scenario of a timer named \<^verbatim>\<open>loop\<close> with the accumulators \<^verbatim>\<open>a\<close> and \<^verbatim>\<open>b\<close>, in
  whose region \<^verbatim>\<open>a\<close> is entered three times for 10 ms each and \<^verbatim>\<open>b\<close> never. The value
  is the timer just before its release.
\<close>

fun with_accumulators :: "(string \<times> real \<times> real) list \<Rightarrow> DebugTimer \<Rightarrow> error + DebugTimer" where
  "with_accumulators [] t = Inr t"
| "with_accumulators ((k, p) # rest) t =
     (case with_accumulator k p t of Inl e \<Rightarrow> Inl e | Inr t' \<Rightarrow> with_accumulators rest t')"

definition loop_scenario :: "error + DebugTimer" where
  "loop_scenario =
     with_accumulators
       [(''a'', 1 / 1000, 11 / 1000), (''a'', 12 / 1000, 22 / 1000), (''a'', 23 / 1000, 33 / 1000)]
       (snd (DebugTimer_enter 0 (DebugTimer_init (Some ''loop'') (Some [''a'', ''b'']) False)))"

subsection \<open>The life of a timer\<close>

text \<open>
  What a caller can do with a timer: enter it, run a \<^verbatim>\<open>with timer.accumulators[k]: ...\<close>
  block, release it, in any order and any number of times. \<open>after_op\<close> is the state of
  the timer after one such step, also when the step raised: a failed lookup leaves the
  timer as it was, and a release that raises has stored \<^verbatim>\<open>duration_sec\<close> before.
\<close>

datatype timer_op = Enter real | Block string "real \<times> real" | Exit real

fun after_op :: "string list \<Rightarrow> timer_op \<Rightarrow> DebugTimer \<Rightarrow> DebugTimer" where
  "after_op g (Enter now) t = snd (DebugTimer_enter now t)"
| "after_op g (Block k p) t = (case with_accumulator k p t of Inl e \<Rightarrow> t | Inr t' \<Rightarrow> t')"
| "after_op g (Exit now) t = fst (snd (DebugTimer_exit g now t))"

definition after_ops :: "string list \<Rightarrow> timer_op list \<Rightarrow> DebugTimer \<Rightarrow> DebugTimer" where
  "after_ops g ops t = fold (after_op g) ops t"

text \<open>
  The blocks that a sequence of steps runs under the name \<open>k\<close>, in order.
\<close>

fun blocks_of :: "string \<Rightarrow> timer_op list \<Rightarrow> (real \<times> real) list" where
  "blocks_of k [] = []"
| "blocks_of k (Block k' p # ops) = (if k' = k then p # blocks_of k ops else blocks_of k ops)"
| "blocks_of k (Enter now # ops) = blocks_of k ops"
| "blocks_of k (Exit now # ops) = blocks_of k ops"

subsection \<open>An invariant of the accumulator\<close>

definition acc_inv :: "TimeAccumulator \<Rightarrow> bool" where
  "acc_inv a = (0 \<le> num_calls a \<and> 0 \<le> duration a \<and> (num_calls a = 0 \<longrightarrow> duration a = 0))"

section \<open>Properties\<close>

subsection \<open>The test of the scaling loop\<close>

lemma log10_window:
  assumes "0 < (x::real)"
  shows "(0 < log 10 x \<and> log 10 x < 3) = (1 < x \<and> x < 1000)"
proof -
  have a: "(0 < log 10 x) = (1 < x)"
    using assms by simp
  have "(log 10 x < 3) = (x < 10 powr 3)"
    using assms by (simp add: log_less_iff)
  also have "(10::real) powr 3 = 1000"
    by simp
  finally show ?thesis using a by simp
qed

lemma scan_units_unbound:
  assumes "''math'' \<notin> set g" and "coeff \<noteq> 0"
  shows "scan_units g ((coeff, u) # rest) d cur = Inl (NameError ''math'')"
  using assms by (simp add: truediv_def math_log10_def)

lemma scan_units_bound:
  assumes "''math'' \<in> set g" and "coeff \<noteq> 0"
  shows "scan_units g ((coeff, u) # rest) d cur =
       (if d / coeff \<le> 0 then Inl ValueError
        else if 1 < d / coeff \<and> d / coeff < 1000 then Inr (d / coeff, u)
        else scan_units g rest d (Some (d / coeff, u)))"
proof (cases "d / coeff \<le> 0")
  case True
  then show ?thesis using assms by (simp add: truediv_def math_log10_def)
next
  case False
  then have pos: "0 < d / coeff" by simp
  have m: "math_log10 g (d / coeff) = Inr (log 10 (d / coeff))"
    using assms(1) False by (simp add: math_log10_def)
  have t: "truediv d coeff = Inr (d / coeff)"
    using assms(2) by (simp add: truediv_def)
  show ?thesis
  proof (cases "1 < d / coeff \<and> d / coeff < 1000")
    case True
    then have "0 < log 10 (d / coeff) \<and> log 10 (d / coeff) < 3"
      using log10_window [OF pos] by simp
    then show ?thesis using True False by (simp add: t m)
  next
    case out: False
    then have "\<not> (0 < log 10 (d / coeff) \<and> log 10 (d / coeff) < 3)"
      using log10_window [OF pos] by simp
    then show ?thesis using out False by (auto simp add: t m)
  qed
qed

lemma math_unbound: "''math'' \<notin> set module_globals"
  by (simp add: module_globals_def)

lemma math_bound: "''math'' \<in> set (''math'' # module_globals)"
  by simp

subsection \<open>Release of the timer\<close>

text \<open>
  C1. The claim: release of the timer has no error condition, with \<^verbatim>\<open>silent\<close> set or not.
  In the module as written the name \<^verbatim>\<open>math\<close> is not bound, so for every timer that was
  entered and is not silent, and for every pair of clock readings, \<^verbatim>\<open>__exit__\<close> stores
  \<^verbatim>\<open>duration_sec\<close>, prints nothing and raises \<^verbatim>\<open>NameError\<close>.
\<close>

theorem C1_release_raises_NameError:
  "DebugTimer_exit module_globals end_time (t\<lparr>silent := False, timer_start := Some s\<rparr>) =
     ([], t\<lparr>silent := False, timer_start := Some s, duration_sec := Some (end_time - s)\<rparr>,
      Some (NameError ''math''))"
  by (simp add: DebugTimer_exit_def format_duration_def units_timer_def scan_units_unbound
      math_unbound del: scan_units.simps)

text \<open>
  C7. A silent timer: whatever the namespace, the labels and the accumulators, release
  prints no line, raises nothing, and stores \<^verbatim>\<open>duration_sec = end - start\<close>.
\<close>

theorem C7_silent_release:
  "DebugTimer_exit g end_time (t\<lparr>silent := True, timer_start := Some s\<rparr>) =
     ([], t\<lparr>silent := True, timer_start := Some s, duration_sec := Some (end_time - s)\<rparr>, None)"
  by (simp add: DebugTimer_exit_def)

subsection \<open>What scope entry returns\<close>

text \<open>
  C10. \<^verbatim>\<open>TimeAccumulator.__enter__\<close> returns \<^verbatim>\<open>None\<close>; \<^verbatim>\<open>DebugTimer.__enter__\<close> returns
  the timer itself, in the state the call leaves it in.
\<close>

theorem C10_enter_return_values:
  "fst (TimeAccumulator_enter now acc) = None \<and>
   fst (DebugTimer_enter now' t) = Some (snd (DebugTimer_enter now' t))"
  by (simp add: TimeAccumulator_enter_def DebugTimer_enter_def Let_def)

subsection \<open>The dictionary of accumulators\<close>

lemma map_of_replace:
  "map_of (map (\<lambda>(k', v'). if k' = k then (k', v) else (k', v')) d) x =
     (if x = k then map_option (\<lambda>_. v) (map_of d k) else map_of d x)"
proof (induction d)
  case Nil
  then show ?case by simp
next
  case (Cons a d)
  obtain k0 v0 where a: "a = (k0, v0)" by (cases a)
  show ?case
  proof (cases "x = k")
    case True
    with Cons show ?thesis by (simp add: a)
  next
    case False
    with Cons show ?thesis by (simp add: a)
  qed
qed

lemma map_of_dict_setitem: "map_of (dict_setitem d k v) = (map_of d)(k \<mapsto> v)"
proof (cases "k \<in> set (map fst d)")
  case True
  then obtain w where "map_of d k = Some w"
    by (metis map_of_eq_None_iff not_Some_eq set_map)
  then show ?thesis using True
    by (simp add: dict_setitem_def fun_eq_iff map_of_replace)
next
  case False
  then have "map_of d k = None" by (simp add: map_of_eq_None_iff)
  then show ?thesis using False
    by (simp add: dict_setitem_def fun_eq_iff map_add_def split: option.splits)
qed

lemma map_of_comprehension:
  "map_of (fold (\<lambda>k d. dict_setitem d k v) ns d0) k =
     (if k \<in> set ns then Some v else map_of d0 k)"
  by (induction ns arbitrary: d0) (auto simp add: map_of_dict_setitem)

subsection \<open>Accumulators that were never entered\<close>

lemma report_skips_never_acquired:
  "report_accumulators g (filter (\<lambda>(k, a). num_calls a \<noteq> 0) accs) = report_accumulators g accs"
  by (induction accs) (auto split: sum.splits prod.splits)

text \<open>
  C9. An accumulator whose \<^verbatim>\<open>num_calls\<close> is 0 leaves no trace in what release prints:
  the printed lines and the exception, if any, are those of the same timer without
  these accumulators. This holds for every namespace, timer and clock reading.
\<close>

theorem C9_never_acquired_omitted:
  "fst (DebugTimer_exit g end_time
          (t\<lparr>accumulators := filter (\<lambda>(k, a). num_calls a \<noteq> 0) (accumulators t)\<rparr>))
     = fst (DebugTimer_exit g end_time t) \<and>
   snd (snd (DebugTimer_exit g end_time
          (t\<lparr>accumulators := filter (\<lambda>(k, a). num_calls a \<noteq> 0) (accumulators t)\<rparr>)))
     = snd (snd (DebugTimer_exit g end_time t))"
  by (simp add: DebugTimer_exit_def report_skips_never_acquired Let_def
      split: option.splits sum.splits prod.splits)

subsection \<open>The accumulator over its life\<close>

lemma with_block_eq:
  "with_block p a = Inr (a\<lparr>num_calls := num_calls a + 1, start := Some (fst p),
      duration := duration a + (snd p - fst p)\<rparr>)"
  by (simp add: with_block_def TimeAccumulator_enter_def TimeAccumulator_exit_def)

lemma life_general:
  assumes "list_all (\<lambda>p. fst p \<le> snd p) ps" and "acc_inv acc"
  shows "(\<forall>a \<in> set (life ps acc). acc_inv a \<and> duration acc \<le> duration a) \<and>
         sorted (map duration (life ps acc)) \<and>
         (\<exists>acc'. run_blocks ps acc = Inr acc' \<and> num_calls acc' = num_calls acc + int (length ps))"
  using assms
proof (induction ps arbitrary: acc)
  case Nil
  then show ?case by simp
next
  case (Cons p ps)
  let ?a1 = "snd (TimeAccumulator_enter (fst p) acc)"
  let ?a2 = "acc\<lparr>num_calls := num_calls acc + 1, start := Some (fst p),
      duration := duration acc + (snd p - fst p)\<rparr>"
  from Cons.prems have le: "fst p \<le> snd p" and rest: "list_all (\<lambda>p. fst p \<le> snd p) ps"
    by simp_all
  have i1: "acc_inv ?a1" "duration ?a1 = duration acc"
    using Cons.prems(2) by (simp_all add: acc_inv_def TimeAccumulator_enter_def)
  have i2: "acc_inv ?a2" "duration acc \<le> duration ?a2"
    using Cons.prems(2) le by (simp_all add: acc_inv_def)
  note IH = Cons.IH [OF rest i2(1)]
  have l: "life (p # ps) acc = acc # ?a1 # life ps ?a2"
    by (simp add: with_block_eq)
  have r: "run_blocks (p # ps) acc = run_blocks ps ?a2"
    by (simp add: with_block_eq)
  show ?case
    unfolding l r using IH i1 i2 Cons.prems(2) by (auto simp add: less_eq_real_def)
qed

text \<open>
  C8. A new accumulator has \<^verbatim>\<open>duration = 0\<close> and \<^verbatim>\<open>num_calls = 0\<close>, and \<^verbatim>\<open>__enter__\<close> adds
  exactly 1 to \<^verbatim>\<open>num_calls\<close>. Over any sequence of \<^verbatim>\<open>with\<close> blocks in each of which the
  clock does not go backwards, every block completes, \<^verbatim>\<open>num_calls\<close> ends as the number of
  blocks, and in every state the object goes through \<^verbatim>\<open>num_calls = 0\<close> implies
  \<^verbatim>\<open>duration = 0\<close>, \<^verbatim>\<open>duration\<close> is not negative, and \<^verbatim>\<open>duration\<close> never decreases from
  one state to the next.
\<close>

theorem C8_accumulator_invariants:
  assumes "list_all (\<lambda>p. fst p \<le> snd p) ps"
  shows "duration TimeAccumulator_init = 0 \<and> num_calls TimeAccumulator_init = 0 \<and>
     num_calls (snd (TimeAccumulator_enter now a)) = num_calls a + 1 \<and>
     (\<exists>acc'. run_blocks ps TimeAccumulator_init = Inr acc' \<and> num_calls acc' = int (length ps)) \<and>
     list_all (\<lambda>a. (num_calls a = 0 \<longrightarrow> duration a = 0) \<and> 0 \<le> duration a)
       (life ps TimeAccumulator_init) \<and>
     sorted (map duration (life ps TimeAccumulator_init))"
proof -
  have i: "acc_inv TimeAccumulator_init"
    by (simp add: acc_inv_def TimeAccumulator_init_def)
  note g = life_general [OF assms i]
  have "list_all (\<lambda>a. (num_calls a = 0 \<longrightarrow> duration a = 0) \<and> 0 \<le> duration a)
       (life ps TimeAccumulator_init)"
    using g by (simp add: list_all_iff acc_inv_def)
  moreover have "\<exists>acc'. run_blocks ps TimeAccumulator_init = Inr acc' \<and>
      num_calls acc' = int (length ps)"
    using g by (simp add: TimeAccumulator_init_def)
  ultimately show ?thesis
    using g by (simp add: TimeAccumulator_init_def TimeAccumulator_enter_def)
qed

theorem C8_accumulator_invariants_witness:
  "list_all (\<lambda>p. fst p \<le> snd p) [(0::real, 2), (3, 7)] \<and>
   (\<exists>acc'. run_blocks [(0, 2), (3, 7)] TimeAccumulator_init = Inr acc' \<and> num_calls acc' = 2) \<and>
   list_all (\<lambda>a. (num_calls a = 0 \<longrightarrow> duration a = 0) \<and> 0 \<le> duration a)
     (life [(0, 2), (3, 7)] TimeAccumulator_init) \<and>
   sorted (map duration (life [(0, 2), (3, 7)] TimeAccumulator_init)) \<and>
   map num_calls (life [(0, 2), (3, 7)] TimeAccumulator_init) = [0, 1, 1, 2, 2] \<and>
   map duration (life [(0, 2), (3, 7)] TimeAccumulator_init) = [0, 0, 2, 2, 6]"
proof -
  have h: "list_all (\<lambda>p. fst p \<le> snd p) [(0::real, 2), (3, 7)]"
    by simp
  show ?thesis
    using h C8_accumulator_invariants [OF h]
    by (simp add: with_block_eq TimeAccumulator_init_def TimeAccumulator_enter_def)
qed

subsection \<open>Looking an accumulator up\<close>

lemma exit_keeps_accumulators:
  "accumulators (fst (snd (DebugTimer_exit g now t))) = accumulators t"
  by (simp add: DebugTimer_exit_def Let_def split: option.splits sum.splits prod.splits)

lemma run_blocks_total: "\<exists>a. run_blocks bs acc = Inr a"
  by (induction bs arbitrary: acc) (simp_all add: with_block_eq)

lemma run_blocks_Nil: "run_blocks [] = Inr"
  by (rule ext) simp

lemma after_op_lookup:
  "map_option Inr (map_of (accumulators (after_op g x t)) k) =
     map_option (run_blocks (blocks_of k [x])) (map_of (accumulators t) k)"
proof (cases x)
  case (Enter now)
  then show ?thesis
    by (simp add: DebugTimer_enter_def Let_def run_blocks_Nil)
next
  case (Exit now)
  then show ?thesis
    by (simp add: exit_keeps_accumulators run_blocks_Nil)
next
  case (Block k' p)
  show ?thesis
  proof (cases "map_of (accumulators t) k'")
    case None
    then show ?thesis using Block
      by (auto simp add: with_accumulator_def dict_getitem_def run_blocks_Nil)
  next
    case (Some a)
    then show ?thesis using Block
      by (auto simp add: with_accumulator_def dict_getitem_def with_block_eq map_of_dict_setitem
          run_blocks_Nil)
  qed
qed

lemma blocks_of_Cons: "blocks_of k (x # ops) = blocks_of k [x] @ blocks_of k ops"
  by (cases x) simp_all

lemma run_blocks_append:
  "run_blocks (bs @ cs) a = (case run_blocks bs a of Inl e \<Rightarrow> Inl e | Inr a' \<Rightarrow> run_blocks cs a')"
  by (induction bs arbitrary: a) (simp_all add: with_block_eq)

lemma after_ops_lookup:
  "map_option Inr (map_of (accumulators (after_ops g ops t)) k) =
     map_option (run_blocks (blocks_of k ops)) (map_of (accumulators t) k)"
proof (induction ops arbitrary: t)
  case Nil
  then show ?case by (simp add: after_ops_def run_blocks_Nil)
next
  case (Cons x ops)
  have "map_option Inr (map_of (accumulators (after_ops g (x # ops) t)) k) =
      map_option (run_blocks (blocks_of k ops)) (map_of (accumulators (after_op g x t)) k)"
    using Cons.IH [of "after_op g x t"] by (simp add: after_ops_def)
  also have "\<dots> = map_option (run_blocks (blocks_of k (x # ops))) (map_of (accumulators t) k)"
  proof (cases "map_of (accumulators t) k")
    case None
    then show ?thesis using after_op_lookup [of g x t k] by simp
  next
    case (Some a)
    obtain a' where a': "run_blocks (blocks_of k [x]) a = Inr a'"
      using run_blocks_total by blast
    then have "map_of (accumulators (after_op g x t)) k = Some a'"
      using after_op_lookup [of g x t k] Some by (cases "map_of (accumulators (after_op g x t)) k") simp_all
    then show ?thesis
      using Some a' by (simp add: blocks_of_Cons [of k x ops] run_blocks_append)
  qed
  finally show ?case .
qed

text \<open>
  C6. Take a timer constructed with any label, any list of accumulator names (absent,
  empty, with repetitions) and any \<^verbatim>\<open>silent\<close> flag, after any sequence of entries,
  blocks and releases, in any namespace. Then \<^verbatim>\<open>timer.accumulators[k]\<close> raises \<^verbatim>\<open>KeyError\<close>
  when \<open>k\<close> is not one of the names. When it is, the lookup returns an accumulator, and
  it is the one of that name: the accumulator that started as a new one and went through
  exactly the blocks run under \<open>k\<close>, whatever was done with the other accumulators.
\<close>

theorem C6_accumulator_lookup:
  "dict_getitem (accumulators (after_ops g ops (DebugTimer_init label names sil))) k =
     (if k \<in> set (case names of None \<Rightarrow> [] | Some ns \<Rightarrow> ns)
      then run_blocks (blocks_of k ops) TimeAccumulator_init else Inl (KeyError k)) \<and>
   (\<exists>a. run_blocks (blocks_of k ops) TimeAccumulator_init = Inr a)"
proof -
  have i: "map_of (accumulators (DebugTimer_init label names sil)) k =
      (if k \<in> set (case names of None \<Rightarrow> [] | Some ns \<Rightarrow> ns) then Some TimeAccumulator_init else None)"
    by (simp add: DebugTimer_init_def map_of_comprehension)
  note l = after_ops_lookup [of g ops "DebugTimer_init label names sil" k]
  show ?thesis
    using l i run_blocks_total [of "blocks_of k ops" TimeAccumulator_init]
    by (cases "map_of (accumulators (after_ops g ops (DebugTimer_init label names sil))) k")
      (auto simp add: dict_getitem_def split: if_splits)
qed

theorem C6_accumulator_lookup_witness:
  "dict_getitem (accumulators (after_ops module_globals
       [Enter 0, Block ''b'' (1, 3), Block ''c'' (4, 5), Exit 9]
       (DebugTimer_init None (Some [''a'', ''b'']) False))) ''a'' = Inr TimeAccumulator_init \<and>
   dict_getitem (accumulators (after_ops module_globals
       [Enter 0, Block ''b'' (1, 3), Block ''c'' (4, 5), Exit 9]
       (DebugTimer_init None (Some [''a'', ''b'']) False))) ''b'' =
     Inr \<lparr>duration = 2, num_calls = 1, start = Some 1\<rparr> \<and>
   dict_getitem (accumulators (after_ops module_globals
       [Enter 0, Block ''b'' (1, 3), Block ''c'' (4, 5), Exit 9]
       (DebugTimer_init None (Some [''a'', ''b'']) False))) ''c'' = Inl (KeyError ''c'')"
  using C6_accumulator_lookup [of module_globals
      "[Enter 0, Block ''b'' (1, 3), Block ''c'' (4, 5), Exit 9]" None "Some [''a'', ''b'']" False "''a''"]
    C6_accumulator_lookup [of module_globals
      "[Enter 0, Block ''b'' (1, 3), Block ''c'' (4, 5), Exit 9]" None "Some [''a'', ''b'']" False "''b''"]
    C6_accumulator_lookup [of module_globals
      "[Enter 0, Block ''b'' (1, 3), Block ''c'' (4, 5), Exit 9]" None "Some [''a'', ''b'']" False "''c''"]
  by (simp add: with_block_eq TimeAccumulator_init_def)

subsection \<open>The scaling loop when \<^verbatim>\<open>math\<close> is bound\<close>

text \<open>
  With \<^verbatim>\<open>math\<close> bound, a positive duration and positive coefficients, the loop returns the
  first unit whose scaled magnitude lies strictly between 1 and 1000, and the last unit
  of the list when there is none.
\<close>

lemma scan_units_first:
  assumes "''math'' \<in> set g" and "0 < d" and "list_all (\<lambda>cu. 0 < fst cu) units"
  shows "scan_units g units d cur =
     (case find (\<lambda>cu. 1 < d / fst cu \<and> d / fst cu < 1000) units of
        Some cu \<Rightarrow> Inr (d / fst cu, snd cu)
      | None \<Rightarrow>
          (if units = [] then (case cur of None \<Rightarrow> Inl (UnboundLocalError ''duration'') | Some c \<Rightarrow> Inr c)
           else Inr (d / fst (last units), snd (last units))))"
  using assms(3)
proof (induction units arbitrary: cur)
  case Nil
  then show ?case by simp
next
  case (Cons cu units)
  obtain c u where cu: "cu = (c, u)" by (cases cu)
  from Cons.prems have c: "0 < c" and rest: "list_all (\<lambda>cu. 0 < fst cu) units"
    by (simp_all add: cu)
  have "0 < d / c" using c assms(2) by (rule divide_pos_pos [OF _ _, rotated])
  then have pos: "\<not> d / c \<le> 0" by simp
  have step: "scan_units g ((c, u) # units) d cur =
      (if 1 < d / c \<and> d / c < 1000 then Inr (d / c, u)
       else scan_units g units d (Some (d / c, u)))"
    using pos c by (subst scan_units_bound [OF assms(1)]) simp_all
  show ?case
    unfolding cu step using Cons.IH [OF rest, of "Some (d / c, u)"]
    by (cases "units = []") (auto simp del: scan_units.simps split: option.splits)
qed

lemma units_timer_pos: "list_all (\<lambda>cu. 0 < fst cu) units_timer"
  by (simp add: units_timer_def)

lemma units_accumulator_pos: "list_all (\<lambda>cu. 0 < fst cu) units_accumulator"
  by (simp add: units_accumulator_def)

lemma format_duration_first:
  assumes "''math'' \<in> set g" and "0 < d" and "list_all (\<lambda>cu. 0 < fst cu) units"
    and "find (\<lambda>cu. 1 < d / fst cu \<and> d / fst cu < 1000) units = Some (c, u)"
    and "d / c = m"
  shows "format_duration g units d = Inr (format_3f m @ '' '' @ u)"
  unfolding format_duration_def scan_units_first [OF assms(1,2,3)] assms(4)
  using assms(5) by simp

lemma format_duration_last:
  assumes "''math'' \<in> set g" and "0 < d" and "list_all (\<lambda>cu. 0 < fst cu) units"
    and "find (\<lambda>cu. 1 < d / fst cu \<and> d / fst cu < 1000) units = None"
    and "units \<noteq> []" and "last units = (c, u)" and "d / c = m"
  shows "format_duration g units d = Inr (format_3f m @ '' '' @ u)"
  unfolding format_duration_def scan_units_first [OF assms(1,2,3)] assms(4)
  using assms(5,6,7) by simp

lemma format_duration_unbound:
  assumes "''math'' \<notin> set g" and "c \<noteq> 0"
  shows "format_duration g ((c, u) # rest) d = Inl (NameError ''math'')"
  unfolding format_duration_def scan_units_unbound [OF assms] by simp

lemma format_duration_zero:
  assumes "c \<noteq> 0"
  shows "format_duration g ((c, u) # rest) 0 =
     Inl (if ''math'' \<in> set g then ValueError else NameError ''math'')"
  using assms by (simp add: format_duration_def truediv_def math_log10_def)

lemma f500: "format_3f 500 = ''500.000''" by code_simp
lemma f40: "format_3f 40 = ''40.000''" by code_simp
lemma f30: "format_3f 30 = ''30.000''" by code_simp
lemma f10: "format_3f 10 = ''10.000''" by code_simp
lemma fh: "format_3f (1 / 3600000000) = ''0.000''" by code_simp
lemma s3: "str_int 3 = ''3''" by code_simp

lemma timer_500ns:
  "format_duration (''math'' # module_globals) units_timer (500 / 10 ^ 9) = Inr (format_3f 500 @ '' '' @ ''ns'')"
  by (rule format_duration_first [OF math_bound _ units_timer_pos, where c = "1 / 10 ^ 9"])
    (simp_all add: units_timer_def)

lemma timer_500us:
  "format_duration (''math'' # module_globals) units_timer (500 / 10 ^ 6) = Inr (format_3f 500 @ '' '' @ ''us'')"
  by (rule format_duration_first [OF math_bound _ units_timer_pos, where c = "1 / 10 ^ 6"])
    (simp_all add: units_timer_def)

lemma timer_500ms:
  "format_duration (''math'' # module_globals) units_timer (500 / 10 ^ 3) = Inr (format_3f 500 @ '' '' @ ''ms'')"
  by (rule format_duration_first [OF math_bound _ units_timer_pos, where c = "1 / 10 ^ 3"])
    (simp_all add: units_timer_def)

lemma timer_500s:
  "format_duration (''math'' # module_globals) units_timer (500) = Inr (format_3f 500 @ '' '' @ ''s'')"
  by (rule format_duration_first [OF math_bound _ units_timer_pos, where c = "1"])
    (simp_all add: units_timer_def)

lemma timer_1000ns:
  "format_duration (''math'' # module_globals) units_timer (1000 / 10 ^ 9) = Inr (format_3f (1 / 3600000000) @ '' '' @ ''h'')"
  by (rule format_duration_last [OF math_bound _ units_timer_pos, where c = "60 * 60"])
    (simp_all add: units_timer_def)

lemma accumulator_500ns:
  "format_duration (''math'' # module_globals) units_accumulator (500 / 10 ^ 9) = Inr (format_3f 500 @ '' '' @ ''ns'')"
  by (rule format_duration_first [OF math_bound _ units_accumulator_pos, where c = "1 / 10 ^ 9"])
    (simp_all add: units_accumulator_def)

lemma accumulator_500us:
  "format_duration (''math'' # module_globals) units_accumulator (500 / 10 ^ 6) = Inr (format_3f 500 @ '' '' @ [CHR 0xCE, CHR 0xBC, CHR ''s''])"
  by (rule format_duration_first [OF math_bound _ units_accumulator_pos, where c = "1 / 10 ^ 6"])
    (simp_all add: units_accumulator_def)

lemma accumulator_500ms:
  "format_duration (''math'' # module_globals) units_accumulator (500 / 10 ^ 3) = Inr (format_3f 500 @ '' '' @ ''ms'')"
  by (rule format_duration_first [OF math_bound _ units_accumulator_pos, where c = "1 / 10 ^ 3"])
    (simp_all add: units_accumulator_def)

lemma accumulator_500s:
  "format_duration (''math'' # module_globals) units_accumulator (500) = Inr (format_3f 500 @ '' '' @ ''s'')"
  by (rule format_duration_first [OF math_bound _ units_accumulator_pos, where c = "1"])
    (simp_all add: units_accumulator_def)

lemma accumulator_1000ns:
  "format_duration (''math'' # module_globals) units_accumulator (1000 / 10 ^ 9) = Inr (format_3f (1 / 3600000000) @ '' '' @ ''h'')"
  by (rule format_duration_last [OF math_bound _ units_accumulator_pos, where c = "60 * 60"])
    (simp_all add: units_accumulator_def)

lemma timer_40ms:
  "format_duration (''math'' # module_globals) units_timer (1 / 25) = Inr (format_3f 40 @ '' '' @ ''ms'')"
  by (rule format_duration_first [OF math_bound _ units_timer_pos, where c = "1 / 10 ^ 3"])
    (simp_all add: units_timer_def)

lemma accumulator_30ms:
  "format_duration (''math'' # module_globals) units_accumulator (3 / 100) = Inr (format_3f 30 @ '' '' @ ''ms'')"
  by (rule format_duration_first [OF math_bound _ units_accumulator_pos, where c = "1 / 10 ^ 3"])
    (simp_all add: units_accumulator_def)

lemma accumulator_10ms:
  "format_duration (''math'' # module_globals) units_accumulator (1 / 100) = Inr (format_3f 10 @ '' '' @ ''ms'')"
  by (rule format_duration_first [OF math_bound _ units_accumulator_pos, where c = "1 / 10 ^ 3"])
    (simp_all add: units_accumulator_def)

subsection \<open>Durations that pass no test\<close>

text \<open>
  C2. The claim: a duration of exactly 0 is rendered with the unit \<^verbatim>\<open>h\<close>, without error.
  In the code the first iteration computes \<^verbatim>\<open>math.log10(0.0)\<close>: with \<^verbatim>\<open>math\<close> bound this
  raises \<^verbatim>\<open>ValueError\<close>, and in the module as written \<^verbatim>\<open>NameError\<close>. This holds for both
  unit tables and for every namespace; a timer released at the clock reading at which
  it was entered prints nothing and raises.
\<close>

theorem C2_zero_duration_raises:
  "format_duration g units_timer 0 =
     Inl (if ''math'' \<in> set g then ValueError else NameError ''math'') \<and>
   format_duration g units_accumulator 0 =
     Inl (if ''math'' \<in> set g then ValueError else NameError ''math'') \<and>
   DebugTimer_exit g s (t\<lparr>silent := False, timer_start := Some s\<rparr>) =
     ([], t\<lparr>silent := False, timer_start := Some s, duration_sec := Some 0\<rparr>,
      Some (if ''math'' \<in> set g then ValueError else NameError ''math''))"
proof -
  have a: "format_duration g units_timer 0 =
      Inl (if ''math'' \<in> set g then ValueError else NameError ''math'')"
    unfolding units_timer_def by (rule format_duration_zero) simp
  have b: "format_duration g units_accumulator 0 =
      Inl (if ''math'' \<in> set g then ValueError else NameError ''math'')"
    unfolding units_accumulator_def by (rule format_duration_zero) simp
  show ?thesis
    using a b by (simp add: DebugTimer_exit_def)
qed

text \<open>
  C3. The claim: 1000 ns is rendered as 1.000 in microseconds. In the code the magnitude
  1000 fails \<^verbatim>\<open>log10 < 3\<close> for \<^verbatim>\<open>ns\<close>, the magnitude 1 fails \<^verbatim>\<open>0 < log10\<close> for
  microseconds, no larger unit passes, and the loop ends on hours: with \<^verbatim>\<open>math\<close> bound
  the text is \<^verbatim>\<open>0.000 h\<close>. In the module as written the call raises \<^verbatim>\<open>NameError\<close>.
\<close>

theorem C3_boundary_1000ns_falls_to_hours:
  "format_duration module_globals units_timer (1000 / 10 ^ 9) = Inl (NameError ''math'') \<and>
   format_duration (''math'' # module_globals) units_timer (1000 / 10 ^ 9) = Inr ''0.000 h'' \<and>
   format_duration (''math'' # module_globals) units_accumulator (1000 / 10 ^ 9) = Inr ''0.000 h''"
proof -
  have "format_duration module_globals units_timer (1000 / 10 ^ 9) = Inl (NameError ''math'')"
    unfolding units_timer_def by (rule format_duration_unbound [OF math_unbound]) simp
  then show ?thesis
    using timer_1000ns accumulator_1000ns by (simp add: fh)
qed

subsection \<open>Unit selection\<close>

text \<open>
  C5. The claim: 500 ns, 500 microseconds, 500 ms and 500 s select the units \<^verbatim>\<open>ns\<close>,
  \<^verbatim>\<open>us\<close> (with the letter mu in an accumulator's line), \<^verbatim>\<open>ms\<close> and \<^verbatim>\<open>s\<close>. In the module as
  written the formatter raises \<^verbatim>\<open>NameError\<close> at the first test and selects nothing;
  with \<^verbatim>\<open>math\<close> bound it selects the units of the claim.
\<close>

theorem C5_unit_selection:
  "format_duration module_globals units_timer (500 / 10 ^ 9) = Inl (NameError ''math'') \<and>
   format_duration module_globals units_accumulator (500 / 10 ^ 9) = Inl (NameError ''math'') \<and>
   format_duration (''math'' # module_globals) units_timer (500 / 10 ^ 9) = Inr ''500.000 ns'' \<and>
   format_duration (''math'' # module_globals) units_timer (500 / 10 ^ 6) = Inr ''500.000 us'' \<and>
   format_duration (''math'' # module_globals) units_timer (500 / 10 ^ 3) = Inr ''500.000 ms'' \<and>
   format_duration (''math'' # module_globals) units_timer 500 = Inr ''500.000 s'' \<and>
   format_duration (''math'' # module_globals) units_accumulator (500 / 10 ^ 9) = Inr ''500.000 ns'' \<and>
   format_duration (''math'' # module_globals) units_accumulator (500 / 10 ^ 6) =
     Inr (''500.000 '' @ [CHR 0xCE, CHR 0xBC, CHR ''s'']) \<and>
   format_duration (''math'' # module_globals) units_accumulator (500 / 10 ^ 3) = Inr ''500.000 ms'' \<and>
   format_duration (''math'' # module_globals) units_accumulator 500 = Inr ''500.000 s''"
proof -
  have a: "format_duration module_globals units_timer (500 / 10 ^ 9) = Inl (NameError ''math'')"
    unfolding units_timer_def by (rule format_duration_unbound [OF math_unbound]) simp
  have b: "format_duration module_globals units_accumulator (500 / 10 ^ 9) = Inl (NameError ''math'')"
    unfolding units_accumulator_def by (rule format_duration_unbound [OF math_unbound]) simp
  show ?thesis
    using a b timer_500ns timer_500us timer_500ms timer_500s
      accumulator_500ns accumulator_500us accumulator_500ms accumulator_500s
    by (simp add: f500)
qed

subsection \<open>The line of an accumulator\<close>

lemma loop_scenario_state:
  "loop_scenario =
     Inr \<lparr>name = Some ''loop'', silent = False,
          accumulators =
            [(''a'', \<lparr>duration = 3 / 100, num_calls = 3, start = Some (23 / 1000)\<rparr>),
             (''b'', TimeAccumulator_init)],
          timer_start = Some 0, duration_sec = None\<rparr>"
  by (simp add: loop_scenario_def DebugTimer_enter_def DebugTimer_init_def Let_def
      with_accumulator_def dict_getitem_def dict_setitem_def with_block_eq
      TimeAccumulator_init_def)

text \<open>
  C4. The claim: the line of an accumulator that was entered starts with a tab and the
  word \<^verbatim>\<open>Accumulator\<close>. In the scenario above, released at 40 ms, the module as written
  prints nothing and raises \<^verbatim>\<open>NameError\<close>; with \<^verbatim>\<open>math\<close> bound it prints the timer's
  line and one line for \<^verbatim>\<open>a\<close>, whose first word is spelt \<^verbatim>\<open>Accumlator\<close>, which is not
  the line of the claim.
\<close>

theorem C4_accumulator_line:
  "\<exists>t. loop_scenario = Inr t \<and>
     DebugTimer_exit module_globals (40 / 1000) t =
       ([], t\<lparr>duration_sec := Some (40 / 1000)\<rparr>, Some (NameError ''math'')) \<and>
     DebugTimer_exit (''math'' # module_globals) (40 / 1000) t =
       ([''Code block '' @ [CHR 0x27] @ ''loop'' @ [CHR 0x27] @ '' took 40.000 ms'',
         [CHR 0x09] @ ''Accumlator '' @ [CHR 0x27] @ ''a'' @ [CHR 0x27]
           @ '' took 30.000 ms out of 3 calls (10.000 ms per call)''],
        t\<lparr>duration_sec := Some (40 / 1000)\<rparr>, None) \<and>
     [CHR 0x09] @ ''Accumlator '' @ [CHR 0x27] @ ''a'' @ [CHR 0x27]
         @ '' took 30.000 ms out of 3 calls (10.000 ms per call)''
       \<noteq> [CHR 0x09] @ ''Accumulator '' @ [CHR 0x27] @ ''a'' @ [CHR 0x27]
         @ '' took 30.000 ms out of 3 calls (10.000 ms per call)''"
proof -
  have u: "format_duration module_globals units_timer (1 / 25) = Inl (NameError ''math'')"
    unfolding units_timer_def by (rule format_duration_unbound [OF math_unbound]) simp
  show ?thesis
    unfolding loop_scenario_state
    by (simp add: DebugTimer_exit_def u timer_40ms accumulator_30ms accumulator_10ms
        truediv_def name_clause_def TimeAccumulator_init_def f40 f30 f10 s3)
qed

end
